theory Spec2Isabelle
  imports Complex_Main
begin

section \<open>Polynomial fitting notebook: data model\<close>

text \<open>
  The notebook computes with Python and numpy floats. The embedding idealises them as
  the reals: rounding, NaN and the overflow of an arithmetic result (Python's
  OverflowError of \<open>**\<close> on floats, numpy's infinities) are outside the model, so the
  theorems about \<open>fit_func\<close> and \<open>compute_errors\<close> are about the values computed, not
  about the absence of such failures. A Python exception is a value of \<open>error\<close> on the
  left of a sum.
\<close>

datatype error = ZeroDivisionError | ValueError | TypeError | RuntimeError | OverflowError

text \<open>Python's builtin \<open>sum\<close>: a left fold that starts from 0.\<close>

definition py_sum :: "real list \<Rightarrow> real" where
  "py_sum vs = foldl (+) 0 vs"

subsection \<open>Target function\<close>

text \<open>\<^verbatim>\<open>def target_function(x): return -(x + 1.0)*(x - 5.0)\<close>\<close>

definition target_function :: "real \<Rightarrow> real" where
  "target_function x = - (x + 1) * (x - 5)"

subsection \<open>Model evaluator\<close>

text \<open>
  \<^verbatim>\<open>
  def fit_func(x, *params):
      x_facts = [x**i for i in range(len(params))]
      return sum(param*x_fact for param, x_fact in zip(params, x_facts))
  \<close>
  The body has no raising statement, and over the reals its arithmetic has no
  failure: the result is on the right.
\<close>

definition fit_func :: "real \<Rightarrow> real list \<Rightarrow> error + real" where
  "fit_func x params =
     (let x_facts = map (\<lambda>i. x ^ i) [0..<length params]
      in Inr (py_sum (map (\<lambda>(param, x_fact). param * x_fact) (zip params x_facts))))"

subsection \<open>Error evaluator\<close>

text \<open>
  \<^verbatim>\<open>
  def compute_errors(func, xs, ys, params):
      return sum((y - func(x, *params))**2 for x, y in zip(xs, ys))/len(xs)
  \<close>
  The generator is consumed pair by pair by \<open>sum\<close>; an exception of \<open>func\<close> ends it at
  that pair. The division comes last and raises when \<open>len(xs)\<close> is 0.
\<close>

fun sum_squared_residuals ::
  "(real \<Rightarrow> real list \<Rightarrow> error + real) \<Rightarrow> real list \<Rightarrow> (real \<times> real) list \<Rightarrow> real \<Rightarrow> error + real"
where
  "sum_squared_residuals func params [] acc = Inr acc"
| "sum_squared_residuals func params ((x, y) # rest) acc =
     (case func x params of
        Inl e \<Rightarrow> Inl e
      | Inr v \<Rightarrow> sum_squared_residuals func params rest (acc + (y - v) ^ 2))"

definition compute_errors ::
  "(real \<Rightarrow> real list \<Rightarrow> error + real) \<Rightarrow> real list \<Rightarrow> real list \<Rightarrow> real list \<Rightarrow> error + real"
where
  "compute_errors func xs ys params =
     (case sum_squared_residuals func params (zip xs ys) 0 of
        Inl e \<Rightarrow> Inl e
      | Inr s \<Rightarrow> if length xs = 0 then Inl ZeroDivisionError else Inr (s / real (length xs)))"

subsection \<open>Fit engine\<close>

text \<open>
  The solver of the notebook is scipy's \<open>curve_fit\<close>, which is not code of the
  notebook. It returns the optimal parameters with their covariance matrix, or
  raises. Its entry checks are modelled as scipy has them for the default method;
  the Levenberg-Marquardt iteration itself (MINPACK), which may fail to converge
  (RuntimeError), is the parameter \<open>lm\<close>:
  \<^item> \<open>curve_fit\<close> raises ValueError for empty \<open>ydata\<close>, and TypeError when there are
    more parameters than data points, unless \<open>ydata\<close> has a single element;
  \<^item> \<open>leastsq\<close> evaluates the residuals \<open>f(xdata, *p0) - ydata\<close> once, where numpy
    broadcasts the two arrays or raises ValueError, and raises TypeError when there
    are more parameters than residuals.
  The model function of every call in the notebook is \<open>fit_func\<close>: on the array
  \<open>xdata\<close> it returns an array of the same length, or the number 0 when it has no
  parameter.
\<close>

type_synonym solver =
  "(real \<Rightarrow> real list \<Rightarrow> error + real) \<Rightarrow> real list \<Rightarrow> real list \<Rightarrow> real list
     \<Rightarrow> error + (real list \<times> real list list)"

definition broadcast_length :: "nat \<Rightarrow> nat \<Rightarrow> nat option" where
  "broadcast_length a b =
     (if a = b then Some a else if a = 1 then Some b else if b = 1 then Some a else None)"

definition residual_length :: "real list \<Rightarrow> real list \<Rightarrow> real list \<Rightarrow> nat option" where
  "residual_length xdata ydata p0 =
     (if p0 = [] then Some (length ydata)
      else broadcast_length (length xdata) (length ydata))"

definition curve_fit :: "solver \<Rightarrow> solver" where
  "curve_fit lm func xdata ydata p0 =
     (if ydata = [] then Inl ValueError
      else if length ydata \<noteq> 1 \<and> length ydata < length p0 then Inl TypeError
      else case residual_length xdata ydata p0 of
             None \<Rightarrow> Inl ValueError
           | Some m \<Rightarrow> if m < length p0 then Inl TypeError else lm func xdata ydata p0)"

text \<open>
  \<^verbatim>\<open>
  def compute_params(fit_func, xs, ys, degree):
      p0 = [1.0]*(degree + 1)
      p_opt, _ = curve_fit(fit_func, xs, ys, p0)
      return p_opt
  \<close>
  The model function is called \<open>func\<close> here, \<open>fit_func\<close> being the constant above.
  A list times a negative integer is the empty list in Python, as \<open>nat\<close> of a
  negative integer is 0. There is no handler around the call: an exception of
  \<open>curve_fit\<close> is the exception of \<open>compute_params\<close>.
\<close>

definition compute_params ::
  "solver \<Rightarrow> (real \<Rightarrow> real list \<Rightarrow> error + real) \<Rightarrow> real list \<Rightarrow> real list \<Rightarrow> int
     \<Rightarrow> error + real list"
where
  "compute_params lm func xs ys degree =
     (let p0 = replicate (nat (degree + 1)) 1
      in case curve_fit lm func xs ys p0 of
           Inl e \<Rightarrow> Inl e
         | Inr (p_opt, _) \<Rightarrow> Inr p_opt)"

subsection \<open>Data generator\<close>

text \<open>
  numpy's process-wide random stream is a state \<open>'g\<close> passed through every call. The
  bit generator itself belongs to numpy and is a parameter: the two raw variates
  (uniform on the unit interval, standard normal), each returned with the advanced
  state.
\<close>

record 'g bit_generator =
  random_sample :: "'g \<Rightarrow> real \<times> 'g"
  standard_normal :: "'g \<Rightarrow> real \<times> 'g"

text \<open>An array of \<open>n\<close> variates, drawn one after the other.\<close>

fun draw :: "('g \<Rightarrow> real \<times> 'g) \<Rightarrow> nat \<Rightarrow> 'g \<Rightarrow> real list \<times> 'g" where
  "draw variate 0 g = ([], g)"
| "draw variate (Suc n) g =
     (case variate g of (v, g1) \<Rightarrow>
        (case draw variate n g1 of (vs, g2) \<Rightarrow> (v # vs, g2)))"

text \<open>
  numpy computes \<open>high - low\<close> in double precision and raises OverflowError when the
  result is not finite. The difference of two doubles rounds to an infinity from
  \<open>2 ^ 1024 - 2 ^ 970\<close> on.
\<close>

definition float_overflow :: "real \<Rightarrow> bool" where
  "float_overflow r \<longleftrightarrow> 2 ^ 1024 - 2 ^ 970 \<le> \<bar>r\<bar>"

text \<open>
  \<open>np.random.uniform(low, high, (n,))\<close>: \<open>n\<close> variates scaled to the interval,
  \<open>low + (high - low) * u\<close>; the bounds are not compared. The range is checked first
  (OverflowError); a negative dimension raises ValueError.
\<close>

definition np_random_uniform ::
  "'g bit_generator \<Rightarrow> real \<Rightarrow> real \<Rightarrow> int \<Rightarrow> 'g \<Rightarrow> error + (real list \<times> 'g)"
where
  "np_random_uniform gen low high n g =
     (if float_overflow (high - low) then Inl OverflowError
      else if n < 0 then Inl ValueError
      else case draw (random_sample gen) (nat n) g of
             (us, g1) \<Rightarrow> Inr (map (\<lambda>u. low + (high - low) * u) us, g1))"

text \<open>
  \<open>np.random.normal(loc, scale, (n,))\<close>: \<open>n\<close> standard normal variates, scaled
  and shifted; a negative \<open>scale\<close> raises ValueError.
\<close>

definition np_random_normal ::
  "'g bit_generator \<Rightarrow> real \<Rightarrow> real \<Rightarrow> int \<Rightarrow> 'g \<Rightarrow> error + (real list \<times> 'g)"
where
  "np_random_normal gen loc scale n g =
     (if scale < 0 \<or> n < 0 then Inl ValueError
      else case draw (standard_normal gen) (nat n) g of
             (zs, g1) \<Rightarrow> Inr (map (\<lambda>z. loc + scale * z) zs, g1))"

text \<open>
  \<^verbatim>\<open>
  def generate_noisy_data(func, x_min=0.0, x_max=1.0, noise=0.2, nr_points=20):
      x = np.random.uniform(x_min, x_max, (nr_points,))
      y = func(x) + np.random.normal(0.0, noise, x.shape)
      return x, y
  \<close>
  \<open>func\<close> is a target function built from numpy's elementwise arithmetic, as
  \<open>target_function\<close> is: on the array \<open>x\<close> it is applied to each element, and the sum
  with the noise array is elementwise too.
\<close>

definition generate_noisy_data ::
  "'g bit_generator \<Rightarrow> (real \<Rightarrow> real) \<Rightarrow> real \<Rightarrow> real \<Rightarrow> real \<Rightarrow> int \<Rightarrow> 'g
     \<Rightarrow> error + ((real list \<times> real list) \<times> 'g)"
where
  "generate_noisy_data gen func x_min x_max noise nr_points g =
     (case np_random_uniform gen x_min x_max nr_points g of
        Inl e \<Rightarrow> Inl e
      | Inr (x, g1) \<Rightarrow>
          (case np_random_normal gen 0 noise (int (length x)) g1 of
             Inl e \<Rightarrow> Inl e
           | Inr (noise_values, g2) \<Rightarrow>
               Inr ((x, map (\<lambda>(fx, e). fx + e) (zip (map func x) noise_values)), g2)))"

subsection \<open>Stand-ins for the libraries, for concrete runs\<close>

text \<open>
  An iteration that stops at once and hands back its initial guess with an empty
  covariance.
\<close>

definition stub_lm :: solver where
  "stub_lm func xs ys p0 = Inr (p0, [])"

text \<open>
  A bit generator whose state is a counter: the uniform variates cycle through
  0, 1/4, 1/2, 3/4 and the normal ones through -1, 0, 1.
\<close>

definition counter_gen :: "nat bit_generator" where
  "counter_gen =
     \<lparr> random_sample = (\<lambda>g. (real (g mod 4) / 4, Suc g)),
       standard_normal = (\<lambda>g. (real (g mod 3) - 1, Suc g)) \<rparr>"

section \<open>Properties\<close>

subsection \<open>What the evaluators compute\<close>

lemma foldl_plus_start: "foldl (+) (a::real) vs = a + sum_list vs"
  by (induction vs arbitrary: a) simp_all

lemma py_sum_sum_list: "py_sum vs = sum_list vs"
  by (simp add: py_sum_def foldl_plus_start)

lemma sum_list_zip_nth:
  "sum_list (map (\<lambda>(x, y). f x y) (zip xs ys))
     = (\<Sum>i<min (length xs) (length ys). (f (xs ! i) (ys ! i) :: real))"
proof -
  have "zip xs ys = map (\<lambda>i. (xs ! i, ys ! i)) [0..<min (length xs) (length ys)]"
    by (rule nth_equalityI) simp_all
  then have "sum_list (map (\<lambda>(x, y). f x y) (zip xs ys))
      = sum_list (map (\<lambda>i. f (xs ! i) (ys ! i)) [0..<min (length xs) (length ys)])"
    by (simp add: comp_def)
  also have "\<dots> = (\<Sum>i<min (length xs) (length ys). f (xs ! i) (ys ! i))"
    by (simp add: interv_sum_list_conv_sum_set_nat atLeast0LessThan)
  finally show ?thesis .
qed

lemma sum_list_zip_powers:
  "sum_list (map (\<lambda>(param, x_fact). param * x_fact) (zip ps (map (\<lambda>i. x ^ i) [0..<length ps])))
     = (\<Sum>i<length ps. ps ! i * (x::real) ^ i)"
  by (simp add: sum_list_zip_nth [of "\<lambda>param x_fact. param * x_fact"])

lemma fit_func_value: "fit_func x ps = Inr (\<Sum>i<length ps. ps ! i * x ^ i)"
  by (simp add: fit_func_def py_sum_sum_list sum_list_zip_powers)

lemma sum_squared_residuals_fit_func:
  "sum_squared_residuals fit_func p ps acc
     = Inr (acc + sum_list (map (\<lambda>(x, y). (y - (\<Sum>j<length p. p ! j * x ^ j)) ^ 2) ps))"
  by (induction ps arbitrary: acc) (auto simp: fit_func_value)

lemma compute_errors_fit_func:
  "compute_errors fit_func xs ys p =
     (if xs = [] then Inl ZeroDivisionError
      else Inr ((\<Sum>i<min (length xs) (length ys).
                   (ys ! i - (\<Sum>j<length p. p ! j * (xs ! i) ^ j)) ^ 2) / real (length xs)))"
  by (simp add: compute_errors_def sum_squared_residuals_fit_func
      sum_list_zip_nth [of "\<lambda>x y. (y - (\<Sum>j<length p. p ! j * x ^ j)) ^ 2"])

subsection \<open>What the fit engine and the data generator do with their inputs\<close>

lemma compute_params_solver:
  "compute_params lm func xs ys degree
     = map_sum id fst (curve_fit lm func xs ys (replicate (nat (degree + 1)) 1))"
  by (simp add: compute_params_def split: sum.splits prod.splits)

lemma curve_fit_underdetermined:
  "length xdata = length ydata \<Longrightarrow> length ydata < length p0 \<Longrightarrow>
     \<exists>e. curve_fit lm func xdata ydata p0 = Inl e"
  by (auto simp: curve_fit_def residual_length_def broadcast_length_def)

lemma draw_lengthD: "draw variate n g = (vs, g') \<Longrightarrow> length vs = n"
  by (induction n arbitrary: g vs g') (auto split: prod.splits)

lemma generate_noisy_data_value:
  assumes "\<not> float_overflow (x_max - x_min)" and "0 \<le> nr_points" and "0 \<le> noise"
    and "draw (random_sample gen) (nat nr_points) g = (us, g1)"
    and "draw (standard_normal gen) (nat nr_points) g1 = (zs, g2)"
  shows "generate_noisy_data gen func x_min x_max noise nr_points g
     = Inr ((map (\<lambda>u. x_min + (x_max - x_min) * u) us,
             map (\<lambda>(fx, e). fx + e)
               (zip (map func (map (\<lambda>u. x_min + (x_max - x_min) * u) us))
                    (map (\<lambda>z. 0 + noise * z) zs))), g2)"
proof -
  have "length us = nat nr_points"
    using assms(4) by (rule draw_lengthD)
  with assms show ?thesis
    by (simp add: generate_noisy_data_def np_random_uniform_def np_random_normal_def)
qed

lemma small_range: "\<bar>r\<bar> \<le> 1 \<Longrightarrow> \<not> float_overflow r"
proof -
  have a: "(2::real) ^ 1024 = 2 ^ 970 * 2 ^ 54"
    by (simp add: power_add [symmetric])
  have b: "(4::real) \<le> 2 ^ 54"
    by simp
  have c: "(1::real) \<le> 2 ^ 970"
    by simp
  have "(1::real) < 2 ^ 970 * 2 ^ 54 - 2 ^ 970"
  proof -
    have "2 ^ 970 * 4 \<le> (2::real) ^ 970 * 2 ^ 54"
      using b by simp
    then show ?thesis
      using c by linarith
  qed
  then show "\<bar>r\<bar> \<le> 1 \<Longrightarrow> \<not> float_overflow r"
    unfolding float_overflow_def a by linarith
qed

lemma counter_gen_uniform_draws:
  "draw (random_sample counter_gen) 0 0 = ([], 0)"
  "draw (random_sample counter_gen) 2 0 = ([0, 1 / 4], 2)"
  "draw (random_sample counter_gen) 3 0 = ([0, 1 / 4, 1 / 2], 3)"
  by code_simp+

lemma counter_gen_normal_draws:
  "draw (standard_normal counter_gen) 0 0 = ([], 0)"
  "draw (standard_normal counter_gen) 2 2 = ([1, - 1], 4)"
  "draw (standard_normal counter_gen) 3 3 = ([- 1, 0, 1], 6)"
  by code_simp+

lemma counter_gen_three_points:
  "generate_noisy_data counter_gen target_function 0 1 (1 / 5) 3 0
     = Inr (([0, 1 / 4, 1 / 2], [24 / 5, 95 / 16, 139 / 20]), 6)"
  using generate_noisy_data_value [of 1 0 3 "1 / 5" counter_gen 0 _ _ _ _ target_function,
      OF small_range _ _ _ _]
    counter_gen_uniform_draws(3) counter_gen_normal_draws(3)
  by (simp add: target_function_def)

subsection \<open>Model evaluator\<close>

text \<open>
  C1. For a coefficient vector \<open>p\<close> of length \<open>d + 1\<close> (hence non-empty) and a real \<open>x\<close>,
  \<open>fit_func\<close> returns the value of the degree-\<open>d\<close> polynomial, the sum of
  \<open>p\<^sub>i * x ^ i\<close> for \<open>i\<close> from 0 to \<open>d\<close>.
\<close>

theorem fit_func_polynomial:
  "length p = d + 1 \<Longrightarrow> fit_func x p = Inr (\<Sum>i = 0..d. p ! i * x ^ i)"
  by (simp add: fit_func_value atLeast0AtMost lessThan_Suc_atMost)

theorem fit_func_polynomial_witness:
  "length [1, 2, 3 :: real] = 2 + 1 \<and> fit_func 2 [1, 2, 3] = Inr 17"
  using fit_func_polynomial [of "[1, 2, 3]" 2 2]
  by (simp add: numeral_2_eq_2 atLeast0AtMost atMost_Suc)

text \<open>
  C4, as stated: \<open>fit_func\<close> with an empty coefficient vector signals an invalid-input
  failure. It does not: at \<open>x = 2\<close> with no coefficient it returns the number 0.
\<close>

theorem fit_func_empty_counterexample: "fit_func 2 [] = Inr 0"
  by (simp add: fit_func_def py_sum_def)

text \<open>
  C4, amended: for every \<open>x\<close>, \<open>fit_func\<close> with an empty coefficient vector returns 0,
  the empty sum, and signals no failure. (No power and no product is computed
  then, so this holds of the floats too.)
\<close>

theorem fit_func_empty: "fit_func x [] = Inr 0"
  by (simp add: fit_func_def py_sum_def)

text \<open>
  C7. A coefficient vector of length 1 makes \<open>fit_func\<close> the constant function with
  value \<open>p[0]\<close>.
\<close>

theorem fit_func_constant:
  "length p = 1 \<Longrightarrow> fit_func x p = Inr (p ! 0)"
  by (simp add: fit_func_value)

theorem fit_func_constant_witness:
  "length [7 :: real] = 1 \<and> fit_func 3 [7] = Inr ([7] ! 0) \<and> fit_func (-2) [7] = Inr 7"
  using fit_func_constant [of "[7]" 3] fit_func_constant [of "[7]" "-2"]
  by simp

subsection \<open>Error evaluator\<close>

text \<open>
  C2. For sequences \<open>xs\<close> and \<open>ys\<close> of the same length \<open>n > 0\<close> and any coefficient
  vector \<open>p\<close>, \<open>compute_errors\<close> with \<open>fit_func\<close> returns the mean squared error
  \<open>(1 / n) * \<Sum>\<^sub>i (y\<^sub>i - f(x\<^sub>i; p))\<^sup>2\<close>, where \<open>f(x; p)\<close> is the polynomial \<open>\<Sum>\<^sub>j p\<^sub>j * x ^ j\<close>.
\<close>

theorem compute_errors_mse:
  "length xs = n \<Longrightarrow> length ys = n \<Longrightarrow> 0 < n \<Longrightarrow>
     compute_errors fit_func xs ys p
       = Inr ((1 / real n) * (\<Sum>i<n. (ys ! i - (\<Sum>j<length p. p ! j * (xs ! i) ^ j)) ^ 2))"
  by (auto simp: compute_errors_fit_func)

theorem compute_errors_mse_witness:
  "length [0, 1 :: real] = 2 \<and> length [1, 4 :: real] = 2 \<and> (0::nat) < 2
     \<and> compute_errors fit_func [0, 1] [1, 4] [1, 2] = Inr (1 / 2)"
  using compute_errors_mse [of "[0, 1]" 2 "[1, 4]" "[1, 2]"]
  by (simp add: lessThan_Suc numeral_2_eq_2)




subsection \<open>Fit engine\<close>

text \<open>
  C3. \<open>compute_params\<close> has no handler around the solver call, and it hands the
  solver \<open>degree + 1\<close> initial parameters with the samples. For a Sample Set of \<open>n\<close>
  points and a degree with \<open>degree + 1 > n\<close>, the call fails at the entry checks of
  \<open>curve_fit\<close>, whatever the iteration would do, and no coefficient vector is
  returned. Each failure of the solver, a run that does not converge included, is
  the failure of \<open>compute_params\<close>, unchanged.
\<close>

theorem compute_params_surfaces_failure:
  "(length xs = n \<and> length ys = n \<and> int n < degree + 1 \<longrightarrow>
      (\<exists>e. compute_params lm fit_func xs ys degree = Inl e))
   \<and> (\<forall>e. curve_fit lm func xs ys (replicate (nat (degree + 1)) 1) = Inl e \<longrightarrow>
         compute_params lm func xs ys degree = Inl e)"
proof (intro conjI impI allI)
  assume h: "length xs = n \<and> length ys = n \<and> int n < degree + 1"
  then have "n < nat (degree + 1)"
    by linarith
  with h have "length xs = length ys"
    and "length ys < length (replicate (nat (degree + 1)) (1::real))"
    by simp_all
  then obtain e
    where "curve_fit lm fit_func xs ys (replicate (nat (degree + 1)) 1) = Inl e"
    using curve_fit_underdetermined by blast
  then show "\<exists>e. compute_params lm fit_func xs ys degree = Inl e"
    by (simp add: compute_params_solver)
next
  fix e
  assume "curve_fit lm func xs ys (replicate (nat (degree + 1)) 1) = Inl e"
  then show "compute_params lm func xs ys degree = Inl e"
    by (simp add: compute_params_solver)
qed

theorem compute_params_surfaces_failure_witness:
  "length [0, 1 :: real] = 2 \<and> length [3, 4 :: real] = 2 \<and> int 2 < 2 + 1
     \<and> curve_fit stub_lm fit_func [0, 1] [3, 4] (replicate (nat (2 + 1)) 1) = Inl TypeError
     \<and> compute_params stub_lm fit_func [0, 1] [3, 4] 2 = Inl TypeError"
proof -
  have s: "curve_fit stub_lm fit_func [0, 1] [3, 4] (replicate (nat (2 + 1)) 1) = Inl TypeError"
    by (simp add: curve_fit_def)
  from compute_params_surfaces_failure [of "[0, 1]" 2 "[3, 4]" 2 stub_lm fit_func] s
  show ?thesis by simp
qed

subsection \<open>Input validation\<close>




subsection \<open>Data generator\<close>

text \<open>
  C9. Every Sample Set that \<open>generate_noisy_data\<close> returns has x-values and y-values
  of the same length, the requested sample count \<open>nr_points\<close>.
\<close>

theorem sample_set_lengths:
  "generate_noisy_data gen func x_min x_max noise nr_points g = Inr ((x, y), g') \<Longrightarrow>
     length x = length y \<and> int (length x) = nr_points"
  by (auto simp: generate_noisy_data_def np_random_uniform_def np_random_normal_def
      split: sum.splits prod.splits if_splits dest!: draw_lengthD)

theorem sample_set_lengths_witness:
  "generate_noisy_data counter_gen target_function 0 1 (1 / 5) 3 0
     = Inr (([0, 1 / 4, 1 / 2], [24 / 5, 95 / 16, 139 / 20]), 6)
   \<and> length [0, 1 / 4, 1 / 2 :: real] = length [24 / 5, 95 / 16, 139 / 20 :: real]
   \<and> int (length [0, 1 / 4, 1 / 2 :: real]) = 3"
  using sample_set_lengths [OF counter_gen_three_points] counter_gen_three_points by simp

end
